theory Spec2Isabelle
  imports Complex_Main
begin

section \<open>The scene of \<^verbatim>\<open>src/main.ts\<close>\<close>

text \<open>
  \<^verbatim>\<open>main.ts\<close> is one script: module-level variables, a loader callback, four input
  handlers, the render callback \<^verbatim>\<open>animate\<close> and the two locomotion functions
  \<^verbatim>\<open>startWalking\<close> and \<^verbatim>\<open>stopWalking\<close>. The module-level variables become one
  record, \<open>scene\<close>, and every callback becomes a function from scene to scene.

  A JavaScript \<^verbatim>\<open>number\<close> is read as a real: a literal denotes its decimal value and
  \<^verbatim>\<open>+\<close>, \<^verbatim>\<open>-\<close>, \<^verbatim>\<open>*\<close> are exact. The rounding of IEEE-754 doubles, \<^verbatim>\<open>NaN\<close> and the
  infinities are outside this development. \<^verbatim>\<open>null\<close> is \<open>None\<close>.
\<close>

subsection \<open>Vectors and objects of three.js\<close>

record Vector3 =
  vec_x :: real
  vec_y :: real
  vec_z :: real

text \<open>\<^verbatim>\<open>Vector3.sub\<close> and \<^verbatim>\<open>Vector3.add\<close> work component by component.\<close>

definition sub :: "Vector3 \<Rightarrow> Vector3 \<Rightarrow> Vector3" where
  "sub a b = \<lparr>vec_x = vec_x a - vec_x b, vec_y = vec_y a - vec_y b, vec_z = vec_z a - vec_z b\<rparr>"

definition add :: "Vector3 \<Rightarrow> Vector3 \<Rightarrow> Vector3" where
  "add a b = \<lparr>vec_x = vec_x a + vec_x b, vec_y = vec_y a + vec_y b, vec_z = vec_z a + vec_z b\<rparr>"

text \<open>
  Every \<^verbatim>\<open>Object3D\<close> has a position; the cube and the camera are no more than that
  here. Of the character, a \<^verbatim>\<open>Group\<close>, the tween library also writes the yaw
  \<^verbatim>\<open>rotation.y\<close>. The camera's orientation, aspect ratio and matrices are not part of
  the record.
\<close>

record Object3D =
  position :: Vector3

record Group = Object3D +
  rotation_y :: real

type_synonym PerspectiveCamera = Object3D

subsection \<open>Animation actions\<close>

text \<open>
  An \<^verbatim>\<open>AnimationAction\<close> of three.js, as far as the script drives it: \<^verbatim>\<open>play\<close>
  schedules the action in its mixer, \<^verbatim>\<open>stop\<close> takes it out of the mixer and resets
  it, \<^verbatim>\<open>reset\<close> drops a pending fade, and \<^verbatim>\<open>a.crossFadeFrom(b, d, warp)\<close> schedules
  a fade-out of \<^verbatim>\<open>b\<close> and a fade-in of \<^verbatim>\<open>a\<close>, both over \<^verbatim>\<open>d\<close> seconds, with or
  without time warping.
\<close>

datatype fade = FadeIn real bool | FadeOut real bool

record AnimationAction =
  scheduled :: bool
  fading :: "fade option"

definition clipAction :: AnimationAction where
  "clipAction = \<lparr>scheduled = False, fading = None\<rparr>"

definition play :: "AnimationAction \<Rightarrow> AnimationAction" where
  "play a = a\<lparr>scheduled := True\<rparr>"

definition reset :: "AnimationAction \<Rightarrow> AnimationAction" where
  "reset a = a\<lparr>fading := None\<rparr>"

definition stop :: "AnimationAction \<Rightarrow> AnimationAction" where
  "stop a = reset (a\<lparr>scheduled := False\<rparr>)"

text \<open>The result is the pair (this action, the action faded out).\<close>

definition crossFadeFrom ::
  "AnimationAction \<Rightarrow> AnimationAction \<Rightarrow> real \<Rightarrow> bool \<Rightarrow> AnimationAction \<times> AnimationAction" where
  "crossFadeFrom this fadeOutAction dur warp =
     (this\<lparr>fading := Some (FadeIn dur warp)\<rparr>, fadeOutAction\<lparr>fading := Some (FadeOut dur warp)\<rparr>)"

subsection \<open>Tweens and the marker element\<close>

text \<open>
  \<^verbatim>\<open>gsap.to(foxModel.rotation, {duration, y})\<close> starts a tween and keeps no handle.
  The scene records the tweens started on the character's rotation, oldest first.
\<close>

record tween =
  tween_duration :: real
  tween_y :: real

text \<open>
  The marker \<^verbatim>\<open>#info-button-1\<close>: its class list and \<^verbatim>\<open>style.transform\<close>, which the
  script sets to \<^verbatim>\<open>translateX(..px) translateY(..px)\<close> or to \<^verbatim>\<open>scale(0, 0)\<close>.
\<close>

datatype css_transform = TranslateXY real real | Scale real real | Css string

record HTMLElement =
  classList :: "string set"
  transform :: css_transform

subsection \<open>The module state\<close>

record scene =
  sizes_width :: real
  sizes_height :: real
  foxModel :: "Group option"
  mixer :: "real option"
  idleAnimation :: "AnimationAction option"
  walkAnimation :: "AnimationAction option"
  movingOnZ :: "real option"
  movingOnX :: "real option"
  camera :: PerspectiveCamera
  cube :: Object3D
  infoButton1 :: "HTMLElement option"
  previousTime :: real
  tweens :: "tween list"

definition movingSpeed :: real where
  "movingSpeed = 0.012"

subsection \<open>The script's top level\<close>

text \<open>
  What the page gives the script: whether \<^verbatim>\<open>canvas.webgl\<close> exists, the marker element
  if there is one, and the window's size. Without a canvas the script throws.
\<close>

record page =
  canvas_found :: bool
  info_button :: "HTMLElement option"
  innerWidth :: real
  innerHeight :: real

datatype error = CanvasNotFound

definition main :: "page \<Rightarrow> error + scene" where
  "main pg =
     (if \<not> canvas_found pg then Inl CanvasNotFound
      else Inr \<lparr>sizes_width = innerWidth pg,
                sizes_height = innerHeight pg,
                foxModel = None,
                mixer = None,
                idleAnimation = None,
                walkAnimation = None,
                movingOnZ = None,
                movingOnX = None,
                camera = \<lparr>position = \<lparr>vec_x = 0, vec_y = 2, vec_z = -5\<rparr>\<rparr>,
                cube = \<lparr>position = \<lparr>vec_x = 3, vec_y = 0.5, vec_z = 3\<rparr>\<rparr>,
                infoButton1 = info_button pg,
                previousTime = 0,
                tweens = []\<rparr>)"

text \<open>
  The loader's callback, given \<^verbatim>\<open>gltf.scene\<close>. \<^verbatim>\<open>Vector3.add\<close> changes the position in
  place, so after the callback \<^verbatim>\<open>controls.target\<close> is the character's position object
  itself; the scene keeps no second copy of it.
\<close>

definition onLoad :: "Group \<Rightarrow> scene \<Rightarrow> scene" where
  "onLoad gltf_scene s =
     (let idle = play clipAction;
          walk = clipAction;
          p = position gltf_scene;
          lowered = p\<lparr>vec_y := vec_y p - 1\<rparr>;
          fox = gltf_scene\<lparr>position := add lowered \<lparr>vec_x = 0, vec_y = 1, vec_z = 0\<rparr>\<rparr>
      in s\<lparr>mixer := Some 0,
           idleAnimation := Some idle,
           walkAnimation := Some walk,
           foxModel := Some fox\<rparr>)"

text \<open>
  The resize handler, given the window's new size. Of what it writes, the record
  holds \<^verbatim>\<open>sizes\<close>.
\<close>

definition onResize :: "real \<Rightarrow> real \<Rightarrow> scene \<Rightarrow> scene" where
  "onResize w h s = s\<lparr>sizes_width := w, sizes_height := h\<rparr>"

subsection \<open>Locomotion\<close>

definition gsap_to :: "tween \<Rightarrow> scene \<Rightarrow> scene" where
  "gsap_to tw s = s\<lparr>tweens := tweens s @ [tw]\<rparr>"

text \<open>
  The last four statements of \<^verbatim>\<open>startWalking\<close>:
  \<^verbatim>\<open>idleAnimation?.stop(); walkAnimation?.reset(); walkAnimation?.play();\<close>
  \<^verbatim>\<open>idleAnimation && walkAnimation?.crossFadeFrom(idleAnimation, 0.5, true)\<close>.
  The first component is the action stopped and faded out, the second the one played.
  \<^verbatim>\<open>stopWalking\<close> runs the same statements with the two actions exchanged.
\<close>

definition switchAnimation ::
  "AnimationAction option \<Rightarrow> AnimationAction option \<Rightarrow> AnimationAction option \<times> AnimationAction option" where
  "switchAnimation old new =
     (let old1 = map_option stop old;
          new1 = map_option reset new;
          new2 = map_option play new1
      in case (old1, new2) of
           (Some out, Some this) \<Rightarrow>
             (let (this', out') = crossFadeFrom this out 0.5 True in (Some out', Some this'))
         | _ \<Rightarrow> (old1, new2))"

definition startWalking :: "string \<Rightarrow> scene \<Rightarrow> scene" where
  "startWalking k s =
     (let isMovingForward = (k = ''w'');
          isMovingRight = (k = ''d'');
          isMovingLeft = (k = ''a'');
          isMovingBackward = (k = ''s'')
      in if (\<not> isMovingBackward \<and> \<not> isMovingForward \<and> \<not> isMovingLeft \<and> \<not> isMovingRight)
            \<or> foxModel s = None
         then s
         else
           (let s1 = s\<lparr>movingOnZ := (if isMovingForward then Some movingSpeed
                                       else if isMovingBackward then Some (- movingSpeed)
                                       else None)\<rparr>;
                s2 = s1\<lparr>movingOnX := (if isMovingRight then Some (- movingSpeed)
                                        else if isMovingLeft then Some movingSpeed
                                        else None)\<rparr>;
                s3 = (if \<not> isMovingForward
                      then (let yRotation = (if isMovingLeft then pi * 0.5
                                             else if isMovingRight then - pi * 0.5
                                             else pi)
                            in gsap_to \<lparr>tween_duration = 0.5, tween_y = yRotation\<rparr> s2)
                      else s2);
                (idle, walk) = switchAnimation (idleAnimation s3) (walkAnimation s3)
            in s3\<lparr>idleAnimation := idle, walkAnimation := walk\<rparr>))"

definition stopWalking :: "string \<Rightarrow> scene \<Rightarrow> scene" where
  "stopWalking k s =
     (let wasMovingForward = (k = ''w'');
          wasMovingRight = (k = ''d'');
          wasMovingLeft = (k = ''a'');
          wasMovingBackward = (k = ''s'')
      in if (\<not> wasMovingBackward \<and> \<not> wasMovingForward \<and> \<not> wasMovingLeft \<and> \<not> wasMovingRight)
            \<or> foxModel s = None
         then s
         else
           (let s1 = s\<lparr>movingOnX := None\<rparr>;
                s2 = s1\<lparr>movingOnZ := None\<rparr>;
                s3 = (if \<not> wasMovingForward
                      then gsap_to \<lparr>tween_duration = 0.5, tween_y = 0\<rparr> s2
                      else s2);
                (walk, idle) = switchAnimation (walkAnimation s3) (idleAnimation s3)
            in s3\<lparr>walkAnimation := walk, idleAnimation := idle\<rparr>))"

subsection \<open>Input handlers\<close>

text \<open>
  \<^verbatim>\<open>arrowKeysToWASDMap\<close> is an object literal; \<^verbatim>\<open>arrowKeys\<close> is \<^verbatim>\<open>Object.keys\<close> of it.
\<close>

definition arrowKeysToWASDMap :: "(string \<times> string) list" where
  "arrowKeysToWASDMap =
     [(''ArrowUp'', ''w''), (''ArrowDown'', ''s''), (''ArrowRight'', ''d''), (''ArrowLeft'', ''a'')]"

definition arrowKeys :: "string list" where
  "arrowKeys = map fst arrowKeysToWASDMap"

text \<open>
  \<^verbatim>\<open>String.prototype.toLowerCase\<close> on the ASCII letters; every other code unit is kept.
\<close>

definition lower_unit :: "char \<Rightarrow> char" where
  "lower_unit c =
     (let n = (of_char c :: nat) in if 65 \<le> n \<and> n \<le> 90 then char_of (n + 32) else c)"

definition toLowerCase :: "string \<Rightarrow> string" where
  "toLowerCase str = map lower_unit str"

record KeyboardEvent =
  event_key :: string
  event_repeat :: bool

text \<open>
  The token both keyboard handlers compute:
  \<^verbatim>\<open>arrowKeys.includes(event.key) ? arrowKeysToWASDMap[event.key] : event.key.toLowerCase()\<close>.
  A property read that finds nothing gives \<^verbatim>\<open>undefined\<close>, here \<open>None\<close>.
\<close>

definition keyToken :: "string \<Rightarrow> string option" where
  "keyToken ek =
     (if ek \<in> set arrowKeys then map_of arrowKeysToWASDMap ek else Some (toLowerCase ek))"

text \<open>
  \<^verbatim>\<open>undefined\<close> is none of the four tokens, so both locomotion functions return at
  their guard when they get it.
\<close>

definition onKeydown :: "KeyboardEvent \<Rightarrow> scene \<Rightarrow> scene" where
  "onKeydown ev s =
     (if event_repeat ev then s
      else case keyToken (event_key ev) of Some k \<Rightarrow> startWalking k s | None \<Rightarrow> s)"

definition onKeyup :: "KeyboardEvent \<Rightarrow> scene \<Rightarrow> scene" where
  "onKeyup ev s =
     (if event_repeat ev then s
      else case keyToken (event_key ev) of Some k \<Rightarrow> stopWalking k s | None \<Rightarrow> s)"

text \<open>The touch handlers pass the touched element's id as it is.\<close>

definition onTouchstart :: "string \<Rightarrow> scene \<Rightarrow> scene" where
  "onTouchstart target_id s = startWalking target_id s"

definition onTouchend :: "string \<Rightarrow> scene \<Rightarrow> scene" where
  "onTouchend target_id s = stopWalking target_id s"

subsection \<open>The render callback\<close>

text \<open>The truthiness of a \<^verbatim>\<open>number | null\<close>: \<^verbatim>\<open>null\<close> and \<^verbatim>\<open>0\<close> are falsy.\<close>

fun truthy :: "real option \<Rightarrow> bool" where
  "truthy None = False"
| "truthy (Some v) = (v \<noteq> 0)"

text \<open>The two branches on the marker; a missing marker stays missing.\<close>

definition showMarker :: "real \<Rightarrow> real \<Rightarrow> HTMLElement \<Rightarrow> HTMLElement" where
  "showMarker translateX translateY b =
     (b\<lparr>classList := insert ''visible'' (classList b)\<rparr>)\<lparr>transform := TranslateXY translateX translateY\<rparr>"

definition hideMarker :: "HTMLElement \<Rightarrow> HTMLElement" where
  "hideMarker b = (b\<lparr>transform := Scale 0 0\<rparr>)\<lparr>classList := classList b - {''visible''}\<rparr>"

definition updateMarker :: "real \<Rightarrow> real \<Rightarrow> Group \<Rightarrow> scene \<Rightarrow> scene" where
  "updateMarker translateX translateY fox s =
     (let difference = sub (position fox) (position (cube s))
      in if \<bar>vec_x difference\<bar> < 3 \<and> \<bar>vec_z difference\<bar> < 3
         then s\<lparr>infoButton1 := map_option (showMarker translateX translateY) (infoButton1 s)\<rparr>
         else s\<lparr>infoButton1 := map_option hideMarker (infoButton1 s)\<rparr>)"

text \<open>
  \<^verbatim>\<open>if (movingOnZ) { foxModel.position.z += movingOnZ; camera.position.z += movingOnZ }\<close>
  and the same on X.
\<close>

definition moveZ :: "real \<Rightarrow> 'a Object3D_scheme \<Rightarrow> 'a Object3D_scheme" where
  "moveZ v ob = ob\<lparr>position := (position ob)\<lparr>vec_z := vec_z (position ob) + v\<rparr>\<rparr>"

definition moveX :: "real \<Rightarrow> 'a Object3D_scheme \<Rightarrow> 'a Object3D_scheme" where
  "moveX v ob = ob\<lparr>position := (position ob)\<lparr>vec_x := vec_x (position ob) + v\<rparr>\<rparr>"

definition applyVelocity :: "Group \<Rightarrow> scene \<Rightarrow> scene" where
  "applyVelocity fox s =
     (let (fox1, cam1) =
            (if truthy (movingOnZ s)
             then (case movingOnZ s of
                     Some v \<Rightarrow> (moveZ v fox, moveZ v (camera s))
                   | None \<Rightarrow> (fox, camera s))
             else (fox, camera s));
          (fox2, cam2) =
            (if truthy (movingOnX s)
             then (case movingOnX s of
                     Some v \<Rightarrow> (moveX v fox1, moveX v cam1)
                   | None \<Rightarrow> (fox1, cam1))
             else (fox1, cam1))
      in s\<lparr>foxModel := Some fox2, camera := cam2\<rparr>)"

text \<open>
  One frame. \<open>project\<close> is \<^verbatim>\<open>Vector3.project\<close> with the camera's matrices as they are
  in this frame, and \<open>elapsedTime\<close> is the clock's reading. \<^verbatim>\<open>camera.lookAt\<close> and
  \<^verbatim>\<open>controls.update\<close> (the controls are disabled, so no pointer input reaches them)
  turn the camera, and \<^verbatim>\<open>renderer.render\<close> draws: the three library calls are taken
  to leave the positions as the script wrote them.
\<close>

definition animate :: "(PerspectiveCamera \<Rightarrow> Vector3 \<Rightarrow> Vector3) \<Rightarrow> real \<Rightarrow> scene \<Rightarrow> scene" where
  "animate project elapsedTime s =
     (let deltaTime = elapsedTime - previousTime s;
          s0 = s\<lparr>previousTime := elapsedTime\<rparr>;
          screenPosition = project (camera s0) (position (cube s0));
          translateX = vec_x screenPosition * sizes_width s0 * 0.5;
          translateY = - vec_y screenPosition * sizes_height s0 * 0.5;
          s1 = (case foxModel s0 of
                  None \<Rightarrow> s0
                | Some fox \<Rightarrow> applyVelocity fox (updateMarker translateX translateY fox s0))
      in s1\<lparr>mixer := map_option (\<lambda>t. t + deltaTime) (mixer s1)\<rparr>)"

subsection \<open>Runs of the script\<close>

datatype event =
    Load Group
  | Resize real real
  | Keydown KeyboardEvent
  | Keyup KeyboardEvent
  | Touchstart string
  | Touchend string
  | Frame "PerspectiveCamera \<Rightarrow> Vector3 \<Rightarrow> Vector3" real

fun handle :: "event \<Rightarrow> scene \<Rightarrow> scene" where
  "handle (Load gltf_scene) s = onLoad gltf_scene s"
| "handle (Resize w h) s = onResize w h s"
| "handle (Keydown ev) s = onKeydown ev s"
| "handle (Keyup ev) s = onKeyup ev s"
| "handle (Touchstart target_id) s = onTouchstart target_id s"
| "handle (Touchend target_id) s = onTouchend target_id s"
| "handle (Frame project elapsedTime) s = animate project elapsedTime s"

text \<open>The scene after the events of a list, first event first.\<close>

fun exec :: "event list \<Rightarrow> scene \<Rightarrow> scene" where
  "exec [] s = s"
| "exec (e # es) s = exec es (handle e s)"

subsection \<open>Invariants of a run and a sample page\<close>

text \<open>
  The velocity written by the locomotion functions: never both axes at once, and
  only the speed or its negation.
\<close>

definition velocity_ok :: "scene \<Rightarrow> bool" where
  "velocity_ok s =
     ((movingOnZ s = None \<or> movingOnX s = None)
      \<and> movingOnZ s \<in> {None, Some movingSpeed, Some (- movingSpeed)}
      \<and> movingOnX s \<in> {None, Some movingSpeed, Some (- movingSpeed)})"

text \<open>The loader's callback sets both actions before it sets the model.\<close>

definition actions_ok :: "scene \<Rightarrow> bool" where
  "actions_ok s = (foxModel s = None \<or> (idleAnimation s \<noteq> None \<and> walkAnimation s \<noteq> None))"

text \<open>A page with a canvas and a marker, and the model the loader delivers.\<close>

definition examplePage :: page where
  "examplePage =
     \<lparr>canvas_found = True,
      info_button = Some \<lparr>classList = {}, transform = Css []\<rparr>,
      innerWidth = 800,
      innerHeight = 600\<rparr>"

definition exampleFox :: Group where
  "exampleFox = \<lparr>position = \<lparr>vec_x = 0, vec_y = 0, vec_z = 0\<rparr>, rotation_y = 0\<rparr>"

definition exampleStart :: scene where
  "exampleStart =
     \<lparr>sizes_width = 800,
      sizes_height = 600,
      foxModel = None,
      mixer = None,
      idleAnimation = None,
      walkAnimation = None,
      movingOnZ = None,
      movingOnX = None,
      camera = \<lparr>position = \<lparr>vec_x = 0, vec_y = 2, vec_z = -5\<rparr>\<rparr>,
      cube = \<lparr>position = \<lparr>vec_x = 3, vec_y = 0.5, vec_z = 3\<rparr>\<rparr>,
      infoButton1 = Some \<lparr>classList = {}, transform = Css []\<rparr>,
      previousTime = 0,
      tweens = []\<rparr>"

definition exampleLoaded :: scene where
  "exampleLoaded = onLoad exampleFox exampleStart"



section \<open>Properties\<close>

subsection \<open>What the locomotion functions write\<close>

lemma foxModel_startWalking: "foxModel (startWalking k s) = foxModel s"
  by (simp add: startWalking_def Let_def gsap_to_def split: prod.splits)

lemma foxModel_stopWalking: "foxModel (stopWalking k s) = foxModel s"
  by (simp add: stopWalking_def Let_def gsap_to_def split: prod.splits)

lemma startWalking_rejected:
  "k \<notin> {''w'', ''a'', ''s'', ''d''} \<or> foxModel s = None \<Longrightarrow> startWalking k s = s"
  by (auto simp add: startWalking_def Let_def)

lemma stopWalking_rejected:
  "k \<notin> {''w'', ''a'', ''s'', ''d''} \<or> foxModel s = None \<Longrightarrow> stopWalking k s = s"
  by (auto simp add: stopWalking_def Let_def)

lemma movingOnZ_startWalking:
  "foxModel s = Some fox \<Longrightarrow>
   movingOnZ (startWalking k s) =
     (if k = ''w'' then Some movingSpeed else if k = ''s'' then Some (- movingSpeed)
      else if k = ''a'' \<or> k = ''d'' then None else movingOnZ s)"
  by (simp add: startWalking_def Let_def gsap_to_def split: prod.splits)

lemma movingOnX_startWalking:
  "foxModel s = Some fox \<Longrightarrow>
   movingOnX (startWalking k s) =
     (if k = ''d'' then Some (- movingSpeed) else if k = ''a'' then Some movingSpeed
      else if k = ''w'' \<or> k = ''s'' then None else movingOnX s)"
  by (simp add: startWalking_def Let_def gsap_to_def split: prod.splits)

lemma moving_stopWalking:
  "foxModel s = Some fox \<Longrightarrow> k \<in> {''w'', ''a'', ''s'', ''d''} \<Longrightarrow>
   movingOnZ (stopWalking k s) = None \<and> movingOnX (stopWalking k s) = None"
  by (auto simp add: stopWalking_def Let_def gsap_to_def split: prod.splits)

lemma velocity_ok_startWalking: "velocity_ok s \<Longrightarrow> velocity_ok (startWalking k s)"
proof (cases "k \<notin> {''w'', ''a'', ''s'', ''d''} \<or> foxModel s = None")
  case True
  then show "velocity_ok s \<Longrightarrow> ?thesis" by (simp only: startWalking_rejected)
next
  case False
  then obtain fox where "foxModel s = Some fox" by auto
  with False show ?thesis
    by (auto simp add: velocity_ok_def movingOnZ_startWalking movingOnX_startWalking)
qed

lemma velocity_ok_stopWalking: "velocity_ok s \<Longrightarrow> velocity_ok (stopWalking k s)"
proof (cases "k \<notin> {''w'', ''a'', ''s'', ''d''} \<or> foxModel s = None")
  case True
  then show "velocity_ok s \<Longrightarrow> ?thesis" by (simp only: stopWalking_rejected)
next
  case False
  then obtain fox where "foxModel s = Some fox" by auto
  with False moving_stopWalking [of s fox k] show ?thesis
    by (simp add: velocity_ok_def)
qed

lemma moving_animate:
  "movingOnZ (animate project t s) = movingOnZ s \<and> movingOnX (animate project t s) = movingOnX s"
  by (simp add: animate_def Let_def applyVelocity_def updateMarker_def
      split: option.splits prod.splits)

lemma velocity_ok_handle: "velocity_ok s \<Longrightarrow> velocity_ok (handle e s)"
proof (cases e)
  case (Keydown ev)
  assume "velocity_ok s"
  with Keydown show ?thesis
    by (simp add: onKeydown_def velocity_ok_startWalking split: option.splits)
next
  case (Keyup ev)
  assume "velocity_ok s"
  with Keyup show ?thesis
    by (simp add: onKeyup_def velocity_ok_stopWalking split: option.splits)
next
  case (Frame project t)
  assume "velocity_ok s"
  with Frame show ?thesis
    by (simp add: velocity_ok_def moving_animate)
qed (simp_all add: velocity_ok_startWalking velocity_ok_stopWalking onTouchstart_def
      onTouchend_def, simp_all add: velocity_ok_def onLoad_def onResize_def Let_def)

lemma velocity_ok_exec: "velocity_ok s \<Longrightarrow> velocity_ok (exec es s)"
  by (induction es arbitrary: s) (simp_all add: velocity_ok_handle)

lemma velocity_ok_main: "main pg = Inr s0 \<Longrightarrow> velocity_ok s0"
  by (auto simp add: main_def velocity_ok_def split: if_splits)

lemma main_examplePage: "main examplePage = Inr exampleStart"
  by (simp add: main_def examplePage_def exampleStart_def)

lemma foxModel_exampleLoaded: "foxModel exampleLoaded \<noteq> None"
  by (simp add: exampleLoaded_def onLoad_def Let_def)

text \<open>
  Claim C1. With the model loaded, \<^verbatim>\<open>startWalking\<close> writes both axes whatever they held:
  Z is \<open>0.012\<close> for \<^verbatim>\<open>w\<close>, \<open>-0.012\<close> for \<^verbatim>\<open>s\<close> and unset for \<^verbatim>\<open>a\<close> and \<^verbatim>\<open>d\<close>;
  X is \<open>-0.012\<close> for \<^verbatim>\<open>d\<close>, \<open>0.012\<close> for \<^verbatim>\<open>a\<close> and unset for \<^verbatim>\<open>w\<close> and \<^verbatim>\<open>s\<close>.
\<close>

theorem startWalking_velocity:
  assumes "foxModel s \<noteq> None"
  shows "movingOnZ (startWalking ''w'' s) = Some 0.012 \<and> movingOnX (startWalking ''w'' s) = None
       \<and> movingOnZ (startWalking ''s'' s) = Some (- 0.012) \<and> movingOnX (startWalking ''s'' s) = None
       \<and> movingOnZ (startWalking ''a'' s) = None \<and> movingOnX (startWalking ''a'' s) = Some 0.012
       \<and> movingOnZ (startWalking ''d'' s) = None \<and> movingOnX (startWalking ''d'' s) = Some (- 0.012)"
proof -
  from assms obtain fox where "foxModel s = Some fox" by auto
  then show ?thesis
    by (simp add: movingOnZ_startWalking movingOnX_startWalking movingSpeed_def)
qed

theorem startWalking_velocity_witness:
  "foxModel exampleLoaded \<noteq> None
   \<and> movingOnZ (startWalking ''w'' exampleLoaded) = Some 0.012
   \<and> movingOnX (startWalking ''w'' exampleLoaded) = None
   \<and> movingOnZ (startWalking ''d'' exampleLoaded) = None
   \<and> movingOnX (startWalking ''d'' exampleLoaded) = Some (- 0.012)"
  using foxModel_exampleLoaded startWalking_velocity [OF foxModel_exampleLoaded] by simp

text \<open>
  Claim C2. With the model loaded, \<^verbatim>\<open>stopWalking\<close> of any of the four tokens unsets
  both axes, whatever they held. In particular, with two keys \<open>j\<close> and \<open>k\<close> pressed one
  after the other, releasing either of them unsets both axes.
\<close>

theorem stopWalking_clears:
  assumes "foxModel s \<noteq> None"
    and "k \<in> {''w'', ''a'', ''s'', ''d''}"
    and "j \<in> {''w'', ''a'', ''s'', ''d''}"
  shows "movingOnZ (stopWalking k s) = None \<and> movingOnX (stopWalking k s) = None
       \<and> movingOnZ (stopWalking k (startWalking k (startWalking j s))) = None
       \<and> movingOnX (stopWalking k (startWalking k (startWalking j s))) = None
       \<and> movingOnZ (stopWalking j (startWalking k (startWalking j s))) = None
       \<and> movingOnX (stopWalking j (startWalking k (startWalking j s))) = None"
proof -
  from assms(1) obtain fox where fox: "foxModel s = Some fox" by auto
  then have held: "foxModel (startWalking k (startWalking j s)) = Some fox"
    by (simp add: foxModel_startWalking)
  from moving_stopWalking [OF fox assms(2)] moving_stopWalking [OF held assms(2)]
    moving_stopWalking [OF held assms(3)]
  show ?thesis by simp
qed

theorem stopWalking_clears_witness:
  "foxModel exampleLoaded \<noteq> None
   \<and> movingOnZ (startWalking ''s'' (startWalking ''w'' exampleLoaded)) = Some (- 0.012)
   \<and> movingOnZ (stopWalking ''s'' (startWalking ''s'' (startWalking ''w'' exampleLoaded))) = None
   \<and> movingOnX (stopWalking ''s'' (startWalking ''s'' (startWalking ''w'' exampleLoaded))) = None
   \<and> movingOnZ (stopWalking ''w'' (startWalking ''s'' (startWalking ''w'' exampleLoaded))) = None"
proof -
  have k: "''s'' \<in> {''w'', ''a'', ''s'', ''d''}" and j: "''w'' \<in> {''w'', ''a'', ''s'', ''d''}"
    by simp_all
  have loaded: "foxModel (startWalking ''w'' exampleLoaded) \<noteq> None"
    by (simp add: foxModel_startWalking foxModel_exampleLoaded)
  have "movingOnZ (startWalking ''s'' (startWalking ''w'' exampleLoaded)) = Some (- 0.012)"
    using loaded by (auto simp add: movingOnZ_startWalking movingSpeed_def)
  with foxModel_exampleLoaded stopWalking_clears [OF foxModel_exampleLoaded k j]
  show ?thesis by simp
qed

text \<open>
  Claim C3. For a token other than the four, and for any token while the model is not
  loaded, \<^verbatim>\<open>startWalking\<close> and \<^verbatim>\<open>stopWalking\<close> return the scene they were given:
  velocity, facing, tweens and animation actions are as before. Both functions are
  total and have no failing branch.
\<close>

theorem walking_noop:
  assumes "k \<notin> {''w'', ''a'', ''s'', ''d''} \<or> foxModel s = None"
  shows "startWalking k s = s \<and> stopWalking k s = s"
  using assms by (simp add: startWalking_rejected stopWalking_rejected)

theorem walking_noop_witness:
  "foxModel exampleLoaded \<noteq> None \<and> foxModel exampleStart = None
   \<and> startWalking ''q'' exampleLoaded = exampleLoaded
   \<and> stopWalking ''q'' exampleLoaded = exampleLoaded
   \<and> startWalking ''w'' exampleStart = exampleStart
   \<and> stopWalking ''w'' exampleStart = exampleStart
   \<and> movingOnZ (startWalking ''w'' exampleStart) = None"
proof -
  have q: "''q'' \<notin> {''w'', ''a'', ''s'', ''d''} \<or> foxModel exampleLoaded = None" by simp
  have unloaded: "foxModel exampleStart = None" by (simp add: exampleStart_def)
  then have w: "''w'' \<notin> {''w'', ''a'', ''s'', ''d''} \<or> foxModel exampleStart = None" by simp
  have "movingOnZ exampleStart = None" by (simp add: exampleStart_def)
  with foxModel_exampleLoaded unloaded walking_noop [OF q] walking_noop [OF w]
  show ?thesis by simp
qed

text \<open>
  Claim C4. After any events, from any page on which the script starts, at most one of
  the two axes is set; and an accepted \<^verbatim>\<open>startWalking\<close> leaves at most one axis set
  from any scene at all, since it writes both.
\<close>

theorem no_diagonal:
  assumes "main pg = Inr s0"
  shows "(movingOnZ (exec es s0) = None \<or> movingOnX (exec es s0) = None)
       \<and> (\<forall>s k. foxModel s \<noteq> None \<and> k \<in> {''w'', ''a'', ''s'', ''d''} \<longrightarrow>
             movingOnZ (startWalking k s) = None \<or> movingOnX (startWalking k s) = None)"
proof -
  from assms have "velocity_ok (exec es s0)"
    by (simp add: velocity_ok_main velocity_ok_exec)
  then show ?thesis
    by (auto simp add: velocity_ok_def movingOnZ_startWalking movingOnX_startWalking)
qed

theorem no_diagonal_witness:
  "main examplePage = Inr exampleStart
   \<and> (movingOnZ (exec [Load exampleFox, Touchstart ''w'', Touchstart ''a''] exampleStart) = None
      \<or> movingOnX (exec [Load exampleFox, Touchstart ''w'', Touchstart ''a''] exampleStart) = None)
   \<and> movingOnX (exec [Load exampleFox, Touchstart ''w'', Touchstart ''a''] exampleStart) = Some 0.012"
proof -
  let ?run = "exec [Load exampleFox, Touchstart ''w'', Touchstart ''a''] exampleStart"
  have run: "?run = startWalking ''a'' (startWalking ''w'' exampleLoaded)"
    by (simp add: onTouchstart_def exampleLoaded_def)
  have "foxModel (startWalking ''w'' exampleLoaded) \<noteq> None"
    by (simp add: foxModel_startWalking foxModel_exampleLoaded)
  then have "movingOnX (startWalking ''a'' (startWalking ''w'' exampleLoaded)) = Some 0.012"
    by (auto simp add: movingOnX_startWalking movingSpeed_def)
  then have onX: "movingOnX ?run = Some 0.012"
    by (simp only: run)
  have "movingOnZ ?run = None \<or> movingOnX ?run = None"
    using no_diagonal [OF main_examplePage, of "[Load exampleFox, Touchstart ''w'', Touchstart ''a'']"]
    by (rule conjunct1)
  with main_examplePage onX show ?thesis
    by (intro conjI)
qed

subsection \<open>The sample run\<close>

lemma exampleLoaded_run: "exampleLoaded = exec [Load exampleFox] exampleStart"
  by (simp add: exampleLoaded_def)







subsection \<open>Facing and animation\<close>

lemma tweens_startWalking:
  "foxModel s = Some fox \<Longrightarrow>
   tweens (startWalking k s) =
     (if k = ''a'' then tweens s @ [\<lparr>tween_duration = 0.5, tween_y = pi / 2\<rparr>]
      else if k = ''d'' then tweens s @ [\<lparr>tween_duration = 0.5, tween_y = - pi / 2\<rparr>]
      else if k = ''s'' then tweens s @ [\<lparr>tween_duration = 0.5, tween_y = pi\<rparr>]
      else tweens s)"
  by (simp add: startWalking_def Let_def gsap_to_def split: prod.splits)

lemma tweens_stopWalking:
  "foxModel s = Some fox \<Longrightarrow>
   tweens (stopWalking k s) =
     (if k = ''a'' \<or> k = ''d'' \<or> k = ''s'' then tweens s @ [\<lparr>tween_duration = 0.5, tween_y = 0\<rparr>]
      else tweens s)"
  by (auto simp add: stopWalking_def Let_def gsap_to_def split: prod.splits)

text \<open>
  Claim C5. With the model loaded, \<^verbatim>\<open>startWalking\<close> starts one tween of the yaw, of
  half a second: toward \<open>\<pi>/2\<close> for \<^verbatim>\<open>a\<close>, toward \<open>-\<pi>/2\<close> for \<^verbatim>\<open>d\<close>, toward \<open>\<pi>\<close> for
  \<^verbatim>\<open>s\<close>, and none for \<^verbatim>\<open>w\<close>. \<^verbatim>\<open>stopWalking\<close> starts one of half a second toward
  \<open>0\<close> for \<^verbatim>\<open>a\<close>, \<^verbatim>\<open>d\<close> and \<^verbatim>\<open>s\<close>, and none for \<^verbatim>\<open>w\<close>. Neither call writes
  the yaw itself.
\<close>

theorem facing_tween:
  assumes "foxModel s \<noteq> None"
  shows "tweens (startWalking ''a'' s) = tweens s @ [\<lparr>tween_duration = 0.5, tween_y = pi / 2\<rparr>]
       \<and> tweens (startWalking ''d'' s) = tweens s @ [\<lparr>tween_duration = 0.5, tween_y = - pi / 2\<rparr>]
       \<and> tweens (startWalking ''s'' s) = tweens s @ [\<lparr>tween_duration = 0.5, tween_y = pi\<rparr>]
       \<and> tweens (startWalking ''w'' s) = tweens s
       \<and> tweens (stopWalking ''a'' s) = tweens s @ [\<lparr>tween_duration = 0.5, tween_y = 0\<rparr>]
       \<and> tweens (stopWalking ''d'' s) = tweens s @ [\<lparr>tween_duration = 0.5, tween_y = 0\<rparr>]
       \<and> tweens (stopWalking ''s'' s) = tweens s @ [\<lparr>tween_duration = 0.5, tween_y = 0\<rparr>]
       \<and> tweens (stopWalking ''w'' s) = tweens s
       \<and> foxModel (startWalking k s) = foxModel s
       \<and> foxModel (stopWalking k s) = foxModel s"
proof -
  from assms obtain fox where "foxModel s = Some fox" by auto
  then show ?thesis
    by (simp add: tweens_startWalking tweens_stopWalking foxModel_startWalking
        foxModel_stopWalking)
qed

theorem facing_tween_witness:
  "foxModel exampleLoaded \<noteq> None
   \<and> tweens (startWalking ''a'' exampleLoaded) = [\<lparr>tween_duration = 0.5, tween_y = pi / 2\<rparr>]
   \<and> tweens (startWalking ''w'' exampleLoaded) = []
   \<and> tweens (stopWalking ''d'' exampleLoaded) = [\<lparr>tween_duration = 0.5, tween_y = 0\<rparr>]
   \<and> tweens (stopWalking ''w'' exampleLoaded) = []"
proof -
  have "tweens exampleLoaded = []"
    by (simp add: exampleLoaded_def onLoad_def Let_def exampleStart_def)
  with foxModel_exampleLoaded facing_tween [OF foxModel_exampleLoaded]
  show ?thesis by simp
qed

lemma switchAnimation_Some:
  "switchAnimation (Some out) (Some this) =
     (Some (out\<lparr>scheduled := False, fading := Some (FadeOut 0.5 True)\<rparr>),
      Some (this\<lparr>scheduled := True, fading := Some (FadeIn 0.5 True)\<rparr>))"
  by (simp add: switchAnimation_def Let_def stop_def reset_def play_def crossFadeFrom_def)

lemma actions_startWalking:
  "foxModel s = Some fox \<Longrightarrow> k \<in> {''w'', ''a'', ''s'', ''d''} \<Longrightarrow>
   idleAnimation s = Some idle \<Longrightarrow> walkAnimation s = Some walk \<Longrightarrow>
   idleAnimation (startWalking k s) = Some (idle\<lparr>scheduled := False, fading := Some (FadeOut 0.5 True)\<rparr>)
   \<and> walkAnimation (startWalking k s) = Some (walk\<lparr>scheduled := True, fading := Some (FadeIn 0.5 True)\<rparr>)"
  by (auto simp add: startWalking_def Let_def gsap_to_def switchAnimation_Some)

lemma actions_stopWalking:
  "foxModel s = Some fox \<Longrightarrow> k \<in> {''w'', ''a'', ''s'', ''d''} \<Longrightarrow>
   idleAnimation s = Some idle \<Longrightarrow> walkAnimation s = Some walk \<Longrightarrow>
   walkAnimation (stopWalking k s) = Some (walk\<lparr>scheduled := False, fading := Some (FadeOut 0.5 True)\<rparr>)
   \<and> idleAnimation (stopWalking k s) = Some (idle\<lparr>scheduled := True, fading := Some (FadeIn 0.5 True)\<rparr>)"
  by (auto simp add: stopWalking_def Let_def gsap_to_def switchAnimation_Some)

lemma switchAnimation_defined:
  "switchAnimation old new = (old', new') \<Longrightarrow> (old' = None \<longleftrightarrow> old = None) \<and> (new' = None \<longleftrightarrow> new = None)"
  by (cases old; cases new) (auto simp add: switchAnimation_def Let_def crossFadeFrom_def)

lemma actions_ok_startWalking: "actions_ok s \<Longrightarrow> actions_ok (startWalking k s)"
  by (auto simp add: actions_ok_def startWalking_def Let_def gsap_to_def
      split: prod.splits dest: switchAnimation_defined)

lemma actions_ok_stopWalking: "actions_ok s \<Longrightarrow> actions_ok (stopWalking k s)"
  by (auto simp add: actions_ok_def stopWalking_def Let_def gsap_to_def
      split: prod.splits dest: switchAnimation_defined)

lemma actions_ok_animate: "actions_ok s \<Longrightarrow> actions_ok (animate project t s)"
  by (auto simp add: actions_ok_def animate_def Let_def applyVelocity_def updateMarker_def
      split: option.splits prod.splits)

lemma actions_ok_handle: "actions_ok s \<Longrightarrow> actions_ok (handle e s)"
proof (cases e)
  case (Keydown ev)
  assume "actions_ok s"
  with Keydown show ?thesis
    by (simp add: onKeydown_def actions_ok_startWalking split: option.splits)
next
  case (Keyup ev)
  assume "actions_ok s"
  with Keyup show ?thesis
    by (simp add: onKeyup_def actions_ok_stopWalking split: option.splits)
qed (simp_all add: actions_ok_startWalking actions_ok_stopWalking onTouchstart_def
      onTouchend_def actions_ok_animate, simp_all add: actions_ok_def onLoad_def onResize_def Let_def)

lemma actions_ok_exec: "actions_ok s \<Longrightarrow> actions_ok (exec es s)"
  by (induction es arbitrary: s) (simp_all add: actions_ok_handle)

lemma actions_ok_main: "main pg = Inr s0 \<Longrightarrow> actions_ok s0"
  by (auto simp add: main_def actions_ok_def split: if_splits)

text \<open>
  Claim C6. In any scene a run reaches with the model loaded, both actions exist, and
  for each of the four tokens: after \<^verbatim>\<open>startWalking\<close> the walk action is scheduled
  and fading in over half a second with warping, the idle action is out of the mixer
  and fading out over the same time; after \<^verbatim>\<open>stopWalking\<close> the two are exchanged.
\<close>

theorem animation_switch:
  assumes "main pg = Inr s0" and "s = exec es s0"
    and "foxModel s \<noteq> None" and "k \<in> {''w'', ''a'', ''s'', ''d''}"
  shows "\<exists>idle walk. idleAnimation s = Some idle \<and> walkAnimation s = Some walk
       \<and> walkAnimation (startWalking k s) = Some (walk\<lparr>scheduled := True, fading := Some (FadeIn 0.5 True)\<rparr>)
       \<and> idleAnimation (startWalking k s) = Some (idle\<lparr>scheduled := False, fading := Some (FadeOut 0.5 True)\<rparr>)
       \<and> idleAnimation (stopWalking k s) = Some (idle\<lparr>scheduled := True, fading := Some (FadeIn 0.5 True)\<rparr>)
       \<and> walkAnimation (stopWalking k s) = Some (walk\<lparr>scheduled := False, fading := Some (FadeOut 0.5 True)\<rparr>)"
proof -
  from assms(1,2) have "actions_ok s"
    by (simp add: actions_ok_main actions_ok_exec)
  with assms(3) obtain fox idle walk
    where st: "foxModel s = Some fox" "idleAnimation s = Some idle" "walkAnimation s = Some walk"
    by (auto simp add: actions_ok_def)
  from actions_startWalking [OF st(1) assms(4) st(2,3)] actions_stopWalking [OF st(1) assms(4) st(2,3)] st
  show ?thesis by simp
qed

theorem animation_switch_witness:
  "main examplePage = Inr exampleStart
   \<and> exampleLoaded = exec [Load exampleFox] exampleStart
   \<and> foxModel exampleLoaded \<noteq> None
   \<and> walkAnimation (startWalking ''w'' exampleLoaded)
       = Some \<lparr>scheduled = True, fading = Some (FadeIn 0.5 True)\<rparr>
   \<and> idleAnimation (startWalking ''w'' exampleLoaded)
       = Some \<lparr>scheduled = False, fading = Some (FadeOut 0.5 True)\<rparr>
   \<and> idleAnimation (stopWalking ''w'' exampleLoaded)
       = Some \<lparr>scheduled = True, fading = Some (FadeIn 0.5 True)\<rparr>
   \<and> walkAnimation (stopWalking ''w'' exampleLoaded)
       = Some \<lparr>scheduled = False, fading = Some (FadeOut 0.5 True)\<rparr>"
proof -
  have k: "''w'' \<in> {''w'', ''a'', ''s'', ''d''}" by simp
  have before: "idleAnimation exampleLoaded = Some \<lparr>scheduled = True, fading = None\<rparr>"
    "walkAnimation exampleLoaded = Some \<lparr>scheduled = False, fading = None\<rparr>"
    by (simp_all add: exampleLoaded_def onLoad_def Let_def play_def clipAction_def)
  from animation_switch [OF main_examplePage exampleLoaded_run foxModel_exampleLoaded k] before
  have "walkAnimation (startWalking ''w'' exampleLoaded)
       = Some \<lparr>scheduled = True, fading = Some (FadeIn 0.5 True)\<rparr>
   \<and> idleAnimation (startWalking ''w'' exampleLoaded)
       = Some \<lparr>scheduled = False, fading = Some (FadeOut 0.5 True)\<rparr>
   \<and> idleAnimation (stopWalking ''w'' exampleLoaded)
       = Some \<lparr>scheduled = True, fading = Some (FadeIn 0.5 True)\<rparr>
   \<and> walkAnimation (stopWalking ''w'' exampleLoaded)
       = Some \<lparr>scheduled = False, fading = Some (FadeOut 0.5 True)\<rparr>"
    by auto
  with main_examplePage exampleLoaded_run foxModel_exampleLoaded show ?thesis
    by (intro conjI) simp_all
qed

subsection \<open>The frame\<close>















subsection \<open>Keys\<close>





end
